theory Spec2Isabelle
  imports Complex_Main
begin

section \<open>Data model\<close>

text \<open>
  The two modules under verification are \<^verbatim>\<open>cocos/core/vmath/mat3.ts\<close> and
  \<^verbatim>\<open>cocos/3d/geom-utils/line.ts\<close>. Their operations take object references,
  write into an output object and return it, and \<^verbatim>\<open>mat3.transpose\<close> even tests
  \<^verbatim>\<open>out === a\<close>; so objects live in an explicit store, addressed by references,
  and every statement of the source that assigns a field is one store update of the model,
  in the source's order.

  A JavaScript \<^verbatim>\<open>number\<close> is modelled as a real: all arithmetic is exact. Rounding,
  infinities and NaN are outside this model.
\<close>

type_synonym ref = nat

text \<open>Read-only arguments of other classes (\<^verbatim>\<open>mat4\<close>, \<^verbatim>\<open>mat2d\<close>, \<^verbatim>\<open>quat\<close>, and the
  two-component vector of \<^verbatim>\<open>translate\<close> and \<^verbatim>\<open>scale\<close>): only their fields are read, so
  they are passed by value. Their field names are those the source reads.\<close>

record mat4 =
  m00 :: real  m01 :: real  m02 :: real  m03 :: real
  m04 :: real  m05 :: real  m06 :: real  m07 :: real
  m08 :: real  m09 :: real  m10 :: real  m11 :: real
  m12 :: real  m13 :: real  m14 :: real  m15 :: real

record mat2d =
  m00 :: real  m01 :: real  m02 :: real
  m03 :: real  m04 :: real  m05 :: real

record quat =
  x :: real  y :: real  z :: real  w :: real

record vec2 =
  x :: real  y :: real

text \<open>The classes whose objects are mutated: \<^verbatim>\<open>mat3\<close> (nine public fields),
  \<^verbatim>\<open>vec3\<close> and \<^verbatim>\<open>line\<close> (two references to \<^verbatim>\<open>vec3\<close> objects and the private
  \<^verbatim>\<open>_type\<close> tag).\<close>

record mat3 =
  m00 :: real  m01 :: real  m02 :: real
  m03 :: real  m04 :: real  m05 :: real
  m06 :: real  m07 :: real  m08 :: real

record vec3 =
  x :: real  y :: real  z :: real

record line =
  s :: ref
  e :: ref
  line_type :: real

text \<open>The store: one heap per class and the allocator's next free reference. An object
  is allocated when its reference is below \<open>next_ref\<close>.\<close>

record store =
  mat3s :: "ref \<Rightarrow> mat3"
  vec3s :: "ref \<Rightarrow> vec3"
  lines :: "ref \<Rightarrow> line"
  next_ref :: ref

definition allocated :: "store \<Rightarrow> ref \<Rightarrow> bool" where
  "allocated st r = (r < next_ref st)"

text \<open>\<^verbatim>\<open>new\<close>: hand out the next reference.\<close>

definition alloc :: "store \<Rightarrow> ref \<times> store" where
  "alloc st = (next_ref st, st\<lparr>next_ref := Suc (next_ref st)\<rparr>)"

text \<open>A parameter with a default value: \<open>None\<close> is the omitted argument.\<close>

definition default_arg :: "real \<Rightarrow> real option \<Rightarrow> real" where
  "default_arg d v = (case v of None \<Rightarrow> d | Some r \<Rightarrow> r)"

subsection \<open>Field assignments\<close>

definition set_m00 :: "ref \<Rightarrow> real \<Rightarrow> store \<Rightarrow> store" where
  "set_m00 r v st = st\<lparr>mat3s := (mat3s st)(r := (mat3s st r)\<lparr>m00 := v\<rparr>)\<rparr>"

definition set_m01 :: "ref \<Rightarrow> real \<Rightarrow> store \<Rightarrow> store" where
  "set_m01 r v st = st\<lparr>mat3s := (mat3s st)(r := (mat3s st r)\<lparr>m01 := v\<rparr>)\<rparr>"

definition set_m02 :: "ref \<Rightarrow> real \<Rightarrow> store \<Rightarrow> store" where
  "set_m02 r v st = st\<lparr>mat3s := (mat3s st)(r := (mat3s st r)\<lparr>m02 := v\<rparr>)\<rparr>"

definition set_m03 :: "ref \<Rightarrow> real \<Rightarrow> store \<Rightarrow> store" where
  "set_m03 r v st = st\<lparr>mat3s := (mat3s st)(r := (mat3s st r)\<lparr>m03 := v\<rparr>)\<rparr>"

definition set_m04 :: "ref \<Rightarrow> real \<Rightarrow> store \<Rightarrow> store" where
  "set_m04 r v st = st\<lparr>mat3s := (mat3s st)(r := (mat3s st r)\<lparr>m04 := v\<rparr>)\<rparr>"

definition set_m05 :: "ref \<Rightarrow> real \<Rightarrow> store \<Rightarrow> store" where
  "set_m05 r v st = st\<lparr>mat3s := (mat3s st)(r := (mat3s st r)\<lparr>m05 := v\<rparr>)\<rparr>"

definition set_m06 :: "ref \<Rightarrow> real \<Rightarrow> store \<Rightarrow> store" where
  "set_m06 r v st = st\<lparr>mat3s := (mat3s st)(r := (mat3s st r)\<lparr>m06 := v\<rparr>)\<rparr>"

definition set_m07 :: "ref \<Rightarrow> real \<Rightarrow> store \<Rightarrow> store" where
  "set_m07 r v st = st\<lparr>mat3s := (mat3s st)(r := (mat3s st r)\<lparr>m07 := v\<rparr>)\<rparr>"

definition set_m08 :: "ref \<Rightarrow> real \<Rightarrow> store \<Rightarrow> store" where
  "set_m08 r v st = st\<lparr>mat3s := (mat3s st)(r := (mat3s st r)\<lparr>m08 := v\<rparr>)\<rparr>"

definition set_x :: "ref \<Rightarrow> real \<Rightarrow> store \<Rightarrow> store" where
  "set_x r v st = st\<lparr>vec3s := (vec3s st)(r := (vec3s st r)\<lparr>x := v\<rparr>)\<rparr>"

definition set_y :: "ref \<Rightarrow> real \<Rightarrow> store \<Rightarrow> store" where
  "set_y r v st = st\<lparr>vec3s := (vec3s st)(r := (vec3s st r)\<lparr>y := v\<rparr>)\<rparr>"

definition set_z :: "ref \<Rightarrow> real \<Rightarrow> store \<Rightarrow> store" where
  "set_z r v st = st\<lparr>vec3s := (vec3s st)(r := (vec3s st r)\<lparr>z := v\<rparr>)\<rparr>"

definition set_s :: "ref \<Rightarrow> ref \<Rightarrow> store \<Rightarrow> store" where
  "set_s r v st = st\<lparr>lines := (lines st)(r := (lines st r)\<lparr>s := v\<rparr>)\<rparr>"

definition set_e :: "ref \<Rightarrow> ref \<Rightarrow> store \<Rightarrow> store" where
  "set_e r v st = st\<lparr>lines := (lines st)(r := (lines st r)\<lparr>e := v\<rparr>)\<rparr>"

definition set_line_type :: "ref \<Rightarrow> real \<Rightarrow> store \<Rightarrow> store" where
  "set_line_type r v st = st\<lparr>lines := (lines st)(r := (lines st r)\<lparr>line_type := v\<rparr>)\<rparr>"


section \<open>The \<^verbatim>\<open>mat3\<close> class\<close>

text \<open>The constructor: every parameter has a default, those of the identity matrix.\<close>

definition mat3_new ::
  "store \<Rightarrow> real option \<Rightarrow> real option \<Rightarrow> real option \<Rightarrow> real option \<Rightarrow> real option \<Rightarrow>
   real option \<Rightarrow> real option \<Rightarrow> real option \<Rightarrow> real option \<Rightarrow> ref \<times> store" where
  "mat3_new st a0 a1 a2 a3 a4 a5 a6 a7 a8 =
     (let (this, st) = alloc st;
          st = set_m00 this (default_arg 1 a0) st;
          st = set_m01 this (default_arg 0 a1) st;
          st = set_m02 this (default_arg 0 a2) st;
          st = set_m03 this (default_arg 0 a3) st;
          st = set_m04 this (default_arg 1 a4) st;
          st = set_m05 this (default_arg 0 a5) st;
          st = set_m06 this (default_arg 0 a6) st;
          st = set_m07 this (default_arg 0 a7) st;
          st = set_m08 this (default_arg 1 a8) st
      in (this, st))"

definition mat3_create ::
  "store \<Rightarrow> real option \<Rightarrow> real option \<Rightarrow> real option \<Rightarrow> real option \<Rightarrow> real option \<Rightarrow>
   real option \<Rightarrow> real option \<Rightarrow> real option \<Rightarrow> real option \<Rightarrow> ref \<times> store" where
  "mat3_create st a0 a1 a2 a3 a4 a5 a6 a7 a8 =
     mat3_new st (Some (default_arg 1 a0)) (Some (default_arg 0 a1)) (Some (default_arg 0 a2))
       (Some (default_arg 0 a3)) (Some (default_arg 1 a4)) (Some (default_arg 0 a5))
       (Some (default_arg 0 a6)) (Some (default_arg 0 a7)) (Some (default_arg 1 a8))"

definition mat3_clone :: "store \<Rightarrow> ref \<Rightarrow> ref \<times> store" where
  "mat3_clone st a =
     mat3_new st (Some (m00 (mat3s st a))) (Some (m01 (mat3s st a))) (Some (m02 (mat3s st a)))
       (Some (m03 (mat3s st a))) (Some (m04 (mat3s st a))) (Some (m05 (mat3s st a)))
       (Some (m06 (mat3s st a))) (Some (m07 (mat3s st a))) (Some (m08 (mat3s st a)))"

definition mat3_copy :: "store \<Rightarrow> ref \<Rightarrow> ref \<Rightarrow> ref \<times> store" where
  "mat3_copy st out a =
     (let st = set_m00 out (m00 (mat3s st a)) st;
          st = set_m01 out (m01 (mat3s st a)) st;
          st = set_m02 out (m02 (mat3s st a)) st;
          st = set_m03 out (m03 (mat3s st a)) st;
          st = set_m04 out (m04 (mat3s st a)) st;
          st = set_m05 out (m05 (mat3s st a)) st;
          st = set_m06 out (m06 (mat3s st a)) st;
          st = set_m07 out (m07 (mat3s st a)) st;
          st = set_m08 out (m08 (mat3s st a)) st
      in (out, st))"

definition mat3_set ::
  "store \<Rightarrow> ref \<Rightarrow> real \<Rightarrow> real \<Rightarrow> real \<Rightarrow> real \<Rightarrow> real \<Rightarrow> real \<Rightarrow> real \<Rightarrow> real \<Rightarrow> real \<Rightarrow>
   ref \<times> store" where
  "mat3_set st out v00 v01 v02 v10 v11 v12 v20 v21 v22 =
     (let st = set_m00 out v00 st;
          st = set_m01 out v01 st;
          st = set_m02 out v02 st;
          st = set_m03 out v10 st;
          st = set_m04 out v11 st;
          st = set_m05 out v12 st;
          st = set_m06 out v20 st;
          st = set_m07 out v21 st;
          st = set_m08 out v22 st
      in (out, st))"

definition mat3_identity :: "store \<Rightarrow> ref \<Rightarrow> ref \<times> store" where
  "mat3_identity st out =
     (let st = set_m00 out 1 st;
          st = set_m01 out 0 st;
          st = set_m02 out 0 st;
          st = set_m03 out 0 st;
          st = set_m04 out 1 st;
          st = set_m05 out 0 st;
          st = set_m06 out 0 st;
          st = set_m07 out 0 st;
          st = set_m08 out 1 st
      in (out, st))"

text \<open>\<^verbatim>\<open>transpose\<close>: the branch for \<^verbatim>\<open>out === a\<close> caches three fields and swaps in place;
  the other branch assigns all nine fields.\<close>

definition mat3_transpose :: "store \<Rightarrow> ref \<Rightarrow> ref \<Rightarrow> ref \<times> store" where
  "mat3_transpose st out a =
     (if out = a then
        (let a01 = m01 (mat3s st a); a02 = m02 (mat3s st a); a12 = m05 (mat3s st a);
             st = set_m01 out (m03 (mat3s st a)) st;
             st = set_m02 out (m06 (mat3s st a)) st;
             st = set_m03 out a01 st;
             st = set_m05 out (m07 (mat3s st a)) st;
             st = set_m06 out a02 st;
             st = set_m07 out a12 st
         in (out, st))
      else
        (let st = set_m00 out (m00 (mat3s st a)) st;
             st = set_m01 out (m03 (mat3s st a)) st;
             st = set_m02 out (m06 (mat3s st a)) st;
             st = set_m03 out (m01 (mat3s st a)) st;
             st = set_m04 out (m04 (mat3s st a)) st;
             st = set_m05 out (m07 (mat3s st a)) st;
             st = set_m06 out (m02 (mat3s st a)) st;
             st = set_m07 out (m05 (mat3s st a)) st;
             st = set_m08 out (m08 (mat3s st a)) st
         in (out, st)))"

text \<open>\<^verbatim>\<open>invert\<close> reads the nine fields of \<^verbatim>\<open>a\<close> first. The test \<^verbatim>\<open>!det\<close> on a number
  holds when the number is zero; then \<^verbatim>\<open>null\<close> is returned, here \<open>None\<close>.\<close>

definition mat3_invert :: "store \<Rightarrow> ref \<Rightarrow> ref \<Rightarrow> ref option \<times> store" where
  "mat3_invert st out a =
     (let a00 = m00 (mat3s st a); a01 = m01 (mat3s st a); a02 = m02 (mat3s st a);
          a10 = m03 (mat3s st a); a11 = m04 (mat3s st a); a12 = m05 (mat3s st a);
          a20 = m06 (mat3s st a); a21 = m07 (mat3s st a); a22 = m08 (mat3s st a);
          b01 = a22 * a11 - a12 * a21;
          b11 = - a22 * a10 + a12 * a20;
          b21 = a21 * a10 - a11 * a20;
          det = a00 * b01 + a01 * b11 + a02 * b21
      in if det = 0 then (None, st)
         else
           (let det = 1 / det;
                st = set_m00 out (b01 * det) st;
                st = set_m01 out ((- a22 * a01 + a02 * a21) * det) st;
                st = set_m02 out ((a12 * a01 - a02 * a11) * det) st;
                st = set_m03 out (b11 * det) st;
                st = set_m04 out ((a22 * a00 - a02 * a20) * det) st;
                st = set_m05 out ((- a12 * a00 + a02 * a10) * det) st;
                st = set_m06 out (b21 * det) st;
                st = set_m07 out ((- a21 * a00 + a01 * a20) * det) st;
                st = set_m08 out ((a11 * a00 - a01 * a10) * det) st
            in (Some out, st)))"


definition mat3_determinant :: "store \<Rightarrow> ref \<Rightarrow> real" where
  "mat3_determinant st a =
     (let a00 = m00 (mat3s st a); a01 = m01 (mat3s st a); a02 = m02 (mat3s st a);
          a10 = m03 (mat3s st a); a11 = m04 (mat3s st a); a12 = m05 (mat3s st a);
          a20 = m06 (mat3s st a); a21 = m07 (mat3s st a); a22 = m08 (mat3s st a)
      in a00 * (a22 * a11 - a12 * a21) + a01 * (- a22 * a10 + a12 * a20)
         + a02 * (a21 * a10 - a11 * a20))"












text \<open>\<^verbatim>\<open>normalFromMat4\<close>: the determinant of the 4x4 argument from twelve 2x2 minors, the
  same test \<^verbatim>\<open>!det\<close> and the same \<^verbatim>\<open>null\<close> as \<^verbatim>\<open>invert\<close>.\<close>

definition mat3_normalFromMat4 :: "store \<Rightarrow> ref \<Rightarrow> mat4 \<Rightarrow> ref option \<times> store" where
  "mat3_normalFromMat4 st out a =
     (let a00 = mat4.m00 a; a01 = mat4.m01 a; a02 = mat4.m02 a; a03 = mat4.m03 a;
          a10 = mat4.m04 a; a11 = mat4.m05 a; a12 = mat4.m06 a; a13 = mat4.m07 a;
          a20 = mat4.m08 a; a21 = mat4.m09 a; a22 = mat4.m10 a; a23 = mat4.m11 a;
          a30 = mat4.m12 a; a31 = mat4.m13 a; a32 = mat4.m14 a; a33 = mat4.m15 a;
          b00 = a00 * a11 - a01 * a10;
          b01 = a00 * a12 - a02 * a10;
          b02 = a00 * a13 - a03 * a10;
          b03 = a01 * a12 - a02 * a11;
          b04 = a01 * a13 - a03 * a11;
          b05 = a02 * a13 - a03 * a12;
          b06 = a20 * a31 - a21 * a30;
          b07 = a20 * a32 - a22 * a30;
          b08 = a20 * a33 - a23 * a30;
          b09 = a21 * a32 - a22 * a31;
          b10 = a21 * a33 - a23 * a31;
          b11 = a22 * a33 - a23 * a32;
          det = b00 * b11 - b01 * b10 + b02 * b09 + b03 * b08 - b04 * b07 + b05 * b06
      in if det = 0 then (None, st)
         else
           (let det = 1 / det;
                st = set_m00 out ((a11 * b11 - a12 * b10 + a13 * b09) * det) st;
                st = set_m01 out ((a12 * b08 - a10 * b11 - a13 * b07) * det) st;
                st = set_m02 out ((a10 * b10 - a11 * b08 + a13 * b06) * det) st;
                st = set_m03 out ((a02 * b10 - a01 * b11 - a03 * b09) * det) st;
                st = set_m04 out ((a00 * b11 - a02 * b08 + a03 * b07) * det) st;
                st = set_m05 out ((a01 * b08 - a00 * b10 - a03 * b06) * det) st;
                st = set_m06 out ((a31 * b05 - a32 * b04 + a33 * b03) * det) st;
                st = set_m07 out ((a32 * b02 - a30 * b05 - a33 * b01) * det) st;
                st = set_m08 out ((a30 * b04 - a31 * b02 + a33 * b00) * det) st
            in (Some out, st)))"












section \<open>The \<^verbatim>\<open>vec3\<close> helpers of \<^verbatim>\<open>line\<close>\<close>

text \<open>Modelled from the spec: \<^verbatim>\<open>vec3.create\<close>, of the \<^verbatim>\<open>vec3\<close> module that is not among
  the sources. A start or end point is a 3D vector of coordinates (x, y, z); creating one
  allocates a new object holding the three coordinates given.\<close>

definition vec3_create :: "store \<Rightarrow> real \<Rightarrow> real \<Rightarrow> real \<Rightarrow> ref \<times> store" where
  "vec3_create st vx vy vz =
     (let (this, st) = alloc st;
          st = set_x this vx st;
          st = set_y this vy st;
          st = set_z this vz st
      in (this, st))"


text \<open>Modelled from the spec: \<^verbatim>\<open>vec3.distance\<close>, of the same missing module: the
  Euclidean distance between two points.\<close>

definition vec3_distance :: "store \<Rightarrow> ref \<Rightarrow> ref \<Rightarrow> real" where
  "vec3_distance st a b =
     (let dx = x (vec3s st b) - x (vec3s st a);
          dy = y (vec3s st b) - y (vec3s st a);
          dz = z (vec3s st b) - z (vec3s st a)
      in sqrt (dx * dx + dy * dy + dz * dz))"

section \<open>The \<^verbatim>\<open>line\<close> class\<close>

text \<open>The constructor. \<^verbatim>\<open>enums.SHAPE_LINE\<close> is a constant of a module that is not among
  the sources: it is the parameter \<open>SHAPE_LINE\<close>.\<close>

definition line_new ::
  "real \<Rightarrow> store \<Rightarrow> real option \<Rightarrow> real option \<Rightarrow> real option \<Rightarrow> real option \<Rightarrow> real option \<Rightarrow>
   real option \<Rightarrow> ref \<times> store" where
  "line_new SHAPE_LINE st sx sy sz ex ey ez =
     (let (this, st) = alloc st;
          st = set_line_type this SHAPE_LINE st;
          (v, st) = vec3_create st (default_arg 0 sx) (default_arg 0 sy) (default_arg 0 sz);
          st = set_s this v st;
          (v, st) = vec3_create st (default_arg 0 ex) (default_arg 0 ey) (default_arg (- 1) ez);
          st = set_e this v st
      in (this, st))"


definition line_clone :: "real \<Rightarrow> store \<Rightarrow> ref \<Rightarrow> ref \<times> store" where
  "line_clone SHAPE_LINE st a =
     line_new SHAPE_LINE st
       (Some (x (vec3s st (s (lines st a))))) (Some (y (vec3s st (s (lines st a)))))
       (Some (z (vec3s st (s (lines st a)))))
       (Some (x (vec3s st (e (lines st a))))) (Some (y (vec3s st (e (lines st a)))))
       (Some (z (vec3s st (e (lines st a)))))"



definition line_set ::
  "store \<Rightarrow> ref \<Rightarrow> real \<Rightarrow> real \<Rightarrow> real \<Rightarrow> real \<Rightarrow> real \<Rightarrow> real \<Rightarrow> ref \<times> store" where
  "line_set st out sx sy sz ex ey ez =
     (let st = set_x (s (lines st out)) sx st;
          st = set_y (s (lines st out)) sy st;
          st = set_z (s (lines st out)) sz st;
          st = set_x (e (lines st out)) ex st;
          st = set_y (e (lines st out)) ey st;
          st = set_z (e (lines st out)) ez st
      in (out, st))"

definition line_magnitude :: "store \<Rightarrow> ref \<Rightarrow> real" where
  "line_magnitude st a = vec3_distance st (s (lines st a)) (e (lines st a))"

definition line_mag :: "store \<Rightarrow> ref \<Rightarrow> real" where
  "line_mag st a = line_magnitude st a"

section \<open>Reference notions\<close>



text \<open>The identity matrix, as a value.\<close>

definition identity_matrix :: mat3 where
  "identity_matrix =
     \<lparr>m00 = 1, m01 = 0, m02 = 0, m03 = 0, m04 = 1, m05 = 0, m06 = 0, m07 = 0, m08 = 1\<rparr>"

section \<open>The two libraries as a set of operations\<close>







section \<open>Example objects\<close>

text \<open>A store with five allocated objects: an invertible matrix at reference 0, the zero
  matrix at reference 1, two points at references 2 and 3, and at reference 4 the line
  between them. (The heaps are total functions: a matrix reference other than 0 holds the
  zero matrix, a point reference other than 2 and 3 the origin, and every line reference
  the same line.)\<close>

definition zero_matrix :: mat3 where
  "zero_matrix =
     \<lparr>m00 = 0, m01 = 0, m02 = 0, m03 = 0, m04 = 0, m05 = 0, m06 = 0, m07 = 0, m08 = 0\<rparr>"

definition example_store :: store where
  "example_store =
     \<lparr>mat3s = (\<lambda>_. zero_matrix)
        (0 := \<lparr>m00 = 2, m01 = 0, m02 = 1, m03 = 1, m04 = 1, m05 = 0, m06 = 0, m07 = 3, m08 = 1\<rparr>),
      vec3s = (\<lambda>_. \<lparr>x = 0, y = 0, z = 0\<rparr>)
        (2 := \<lparr>x = 1, y = 2, z = 3\<rparr>, 3 := \<lparr>x = 4, y = 6, z = 3\<rparr>),
      lines = (\<lambda>_. \<lparr>s = 2, e = 3, line_type = 0\<rparr>),
      next_ref = 5\<rparr>"

definition zero_mat4 :: mat4 where
  "zero_mat4 =
     \<lparr>mat4.m00 = 0, mat4.m01 = 0, mat4.m02 = 0, mat4.m03 = 0,
      mat4.m04 = 0, mat4.m05 = 0, mat4.m06 = 0, mat4.m07 = 0,
      mat4.m08 = 0, mat4.m09 = 0, mat4.m10 = 0, mat4.m11 = 0,
      mat4.m12 = 0, mat4.m13 = 0, mat4.m14 = 0, mat4.m15 = 0\<rparr>"


section \<open>What each operation leaves in the store\<close>

lemmas mat3_field_defs = set_m00_def set_m01_def set_m02_def set_m03_def set_m04_def
  set_m05_def set_m06_def set_m07_def set_m08_def

lemmas vec3_field_defs = set_x_def set_y_def set_z_def

lemmas line_field_defs = set_s_def set_e_def set_line_type_def

text \<open>The output of \<^verbatim>\<open>transpose\<close>, whichever branch runs: the fields of \<open>a\<close> as they
  were before the call, mirrored at the diagonal.\<close>

lemma transpose_out:
  "mat3s (snd (mat3_transpose st out a)) out =
     \<lparr>m00 = m00 (mat3s st a), m01 = m03 (mat3s st a), m02 = m06 (mat3s st a),
      m03 = m01 (mat3s st a), m04 = m04 (mat3s st a), m05 = m07 (mat3s st a),
      m06 = m02 (mat3s st a), m07 = m05 (mat3s st a), m08 = m08 (mat3s st a)\<rparr>"
  by (simp add: mat3_transpose_def mat3_field_defs Let_def)








section \<open>Inversion\<close>




text \<open>
  C9. When \<^verbatim>\<open>invert\<close> or \<^verbatim>\<open>normalFromMat4\<close> returns \<^verbatim>\<open>null\<close>, it has written nothing:
  the store after the call is the store before it, so every field of \<open>out\<close> is as it
  was.
\<close>

theorem null_result_writes_nothing:
  "(fst (mat3_invert st out a) = None \<longrightarrow> snd (mat3_invert st out a) = st)
   \<and> (fst (mat3_normalFromMat4 st out m) = None \<longrightarrow> snd (mat3_normalFromMat4 st out m) = st)"
  by (simp add: mat3_invert_def mat3_normalFromMat4_def Let_def)

theorem null_result_writes_nothing_witness:
  "fst (mat3_invert example_store 0 1) = None
   \<and> snd (mat3_invert example_store 0 1) = example_store
   \<and> mat3s (snd (mat3_invert example_store 0 1)) 0 = mat3s example_store 0
   \<and> fst (mat3_normalFromMat4 example_store 0 zero_mat4) = None
   \<and> snd (mat3_normalFromMat4 example_store 0 zero_mat4) = example_store"
proof -
  have n1: "fst (mat3_invert example_store 0 1) = None"
    by (simp add: mat3_invert_def example_store_def zero_matrix_def Let_def)
  have n2: "fst (mat3_normalFromMat4 example_store 0 zero_mat4) = None"
    by (simp add: mat3_normalFromMat4_def zero_mat4_def Let_def)
  from null_result_writes_nothing [of example_store 0 1 zero_mat4] n1 n2 show ?thesis
    by simp
qed

section \<open>Transposition\<close>

text \<open>
  C3. Transposing a matrix \<open>a\<close> into an output \<open>b\<close> and then \<open>b\<close> into an output
  \<open>c\<close> leaves in \<open>c\<close> the nine fields \<open>a\<close> had at the start. It holds for fresh
  outputs and for any others too: \<open>b\<close> and \<open>c\<close> may be any objects.
\<close>

theorem transpose_twice:
  "mat3s (snd (mat3_transpose (snd (mat3_transpose st b a)) c b)) c = mat3s st a"
  by (simp add: transpose_out)

text \<open>
  C10. Transposing \<open>a\<close> in place, \<^verbatim>\<open>transpose(a, a)\<close>, and transposing it into another
  matrix \<open>t\<close> that is then copied back into \<open>a\<close> leave the same fields in \<open>a\<close>; the two
  stores differ in nothing but the content of \<open>t\<close>.
\<close>

theorem transpose_in_place_equivalent:
  assumes "t \<noteq> a"
  shows "mat3s (snd (mat3_copy (snd (mat3_transpose st t a)) a t)) a
           = mat3s (snd (mat3_transpose st a a)) a
       \<and> (snd (mat3_copy (snd (mat3_transpose st t a)) a t))
            \<lparr>mat3s := (mat3s (snd (mat3_copy (snd (mat3_transpose st t a)) a t)))
               (t := mat3s st t)\<rparr>
           = snd (mat3_transpose st a a)"
  using assms
  by (simp add: mat3_copy_def mat3_transpose_def mat3_field_defs Let_def fun_eq_iff)

theorem transpose_in_place_equivalent_witness:
  "(1 :: ref) \<noteq> 0
   \<and> mat3s (snd (mat3_copy (snd (mat3_transpose example_store 1 0)) 0 1)) 0
       = mat3s (snd (mat3_transpose example_store 0 0)) 0
   \<and> mat3s (snd (mat3_transpose example_store 0 0)) 0
       = \<lparr>m00 = 2, m01 = 1, m02 = 0, m03 = 0, m04 = 1, m05 = 3, m06 = 1, m07 = 0, m08 = 1\<rparr>"
proof -
  have ne: "(1 :: ref) \<noteq> 0"
    by simp
  have inplace: "mat3s (snd (mat3_transpose example_store 0 0)) 0
      = \<lparr>m00 = 2, m01 = 1, m02 = 0, m03 = 0, m04 = 1, m05 = 3, m06 = 1, m07 = 0, m08 = 1\<rparr>"
    by (simp add: transpose_out example_store_def)
  from transpose_in_place_equivalent [OF ne, of example_store] ne inplace show ?thesis
    by simp
qed

section \<open>Identity and defaults\<close>

text \<open>
  C6. \<^verbatim>\<open>determinant\<close> is 1 on a matrix set by \<^verbatim>\<open>identity\<close>, on one made by the
  constructor without arguments, and on one made by \<^verbatim>\<open>create\<close> without arguments.
\<close>

theorem determinant_identity:
  "mat3_determinant (snd (mat3_identity st out)) out = 1
   \<and> mat3_determinant (snd (mat3_new st None None None None None None None None None))
        (fst (mat3_new st None None None None None None None None None)) = 1
   \<and> mat3_determinant (snd (mat3_create st None None None None None None None None None))
        (fst (mat3_create st None None None None None None None None None)) = 1"
  by (simp add: mat3_determinant_def mat3_identity_def mat3_new_def mat3_create_def alloc_def
      default_arg_def mat3_field_defs Let_def)

text \<open>
  C8. A line constructed without arguments starts at (0, 0, 0) and ends at (0, 0, -1): the
  two points differ, and its magnitude is 1. A matrix constructed without arguments, by
  the constructor or by \<^verbatim>\<open>create\<close>, is the identity matrix.
\<close>

theorem default_line_and_matrix:
  "vec3s (snd (line_new SHAPE_LINE st None None None None None None))
      (s (lines (snd (line_new SHAPE_LINE st None None None None None None))
           (fst (line_new SHAPE_LINE st None None None None None None))))
     = \<lparr>x = 0, y = 0, z = 0\<rparr>
   \<and> vec3s (snd (line_new SHAPE_LINE st None None None None None None))
      (e (lines (snd (line_new SHAPE_LINE st None None None None None None))
           (fst (line_new SHAPE_LINE st None None None None None None))))
     = \<lparr>x = 0, y = 0, z = - 1\<rparr>
   \<and> vec3s (snd (line_new SHAPE_LINE st None None None None None None))
      (s (lines (snd (line_new SHAPE_LINE st None None None None None None))
           (fst (line_new SHAPE_LINE st None None None None None None))))
     \<noteq> vec3s (snd (line_new SHAPE_LINE st None None None None None None))
      (e (lines (snd (line_new SHAPE_LINE st None None None None None None))
           (fst (line_new SHAPE_LINE st None None None None None None))))
   \<and> line_magnitude (snd (line_new SHAPE_LINE st None None None None None None))
         (fst (line_new SHAPE_LINE st None None None None None None)) = 1
   \<and> mat3s (snd (mat3_new st None None None None None None None None None))
         (fst (mat3_new st None None None None None None None None None)) = identity_matrix
   \<and> mat3s (snd (mat3_create st None None None None None None None None None))
         (fst (mat3_create st None None None None None None None None None)) = identity_matrix"
proof -
  have start: "vec3s (snd (line_new SHAPE_LINE st None None None None None None))
      (s (lines (snd (line_new SHAPE_LINE st None None None None None None))
           (fst (line_new SHAPE_LINE st None None None None None None))))
     = \<lparr>x = 0, y = 0, z = 0\<rparr>"
    by (simp add: line_new_def vec3_create_def alloc_def default_arg_def vec3_field_defs
        line_field_defs Let_def)
  have finish: "vec3s (snd (line_new SHAPE_LINE st None None None None None None))
      (e (lines (snd (line_new SHAPE_LINE st None None None None None None))
           (fst (line_new SHAPE_LINE st None None None None None None))))
     = \<lparr>x = 0, y = 0, z = - 1\<rparr>"
    by (simp add: line_new_def vec3_create_def alloc_def default_arg_def vec3_field_defs
        line_field_defs Let_def)
  have length: "line_magnitude (snd (line_new SHAPE_LINE st None None None None None None))
         (fst (line_new SHAPE_LINE st None None None None None None)) = 1"
    unfolding line_magnitude_def vec3_distance_def start finish
    by simp
  have matrices: "mat3s (snd (mat3_new st None None None None None None None None None))
         (fst (mat3_new st None None None None None None None None None)) = identity_matrix
   \<and> mat3s (snd (mat3_create st None None None None None None None None None))
         (fst (mat3_create st None None None None None None None None None)) = identity_matrix"
    by (simp add: mat3_new_def mat3_create_def alloc_def default_arg_def mat3_field_defs
        identity_matrix_def Let_def)
  from length matrices show ?thesis
    unfolding start finish by simp
qed

section \<open>Lines\<close>

text \<open>
  C5. The magnitude of a line is the Euclidean distance between its start point and its
  end point, the square root of the sum of the squared coordinate differences; it is what
  \<^verbatim>\<open>vec3.distance\<close> returns on the two points, it is never negative, and \<^verbatim>\<open>mag\<close> returns
  the same number.
\<close>

theorem magnitude_euclidean_distance:
  "line_magnitude st a =
     sqrt ((x (vec3s st (e (lines st a))) - x (vec3s st (s (lines st a))))\<^sup>2
         + (y (vec3s st (e (lines st a))) - y (vec3s st (s (lines st a))))\<^sup>2
         + (z (vec3s st (e (lines st a))) - z (vec3s st (s (lines st a))))\<^sup>2)
   \<and> line_magnitude st a = vec3_distance st (s (lines st a)) (e (lines st a))
   \<and> 0 \<le> line_magnitude st a
   \<and> line_mag st a = line_magnitude st a"
  by (simp add: line_magnitude_def line_mag_def vec3_distance_def Let_def power2_eq_square)

section \<open>Clones\<close>

text \<open>
  C7. The clone of an allocated matrix \<open>a\<close> has the fields of \<open>a\<close>, and \<^verbatim>\<open>mat3.set\<close> on
  the clone, with any values, leaves \<open>a\<close> as it was. The clone of an allocated line \<open>l\<close>
  (its two points allocated as well) has a start point and an end point with the
  coordinates of those of \<open>l\<close>, and \<^verbatim>\<open>line.set\<close> on the clone, with any values, leaves
  \<open>l\<close> and its two points as they were.
\<close>

theorem clone_equal_and_independent:
  assumes "allocated st a"
    and "allocated st l" and "allocated st (s (lines st l))" and "allocated st (e (lines st l))"
  shows "mat3s (snd (mat3_clone st a)) (fst (mat3_clone st a)) = mat3s st a
    \<and> mat3s (snd (mat3_set (snd (mat3_clone st a)) (fst (mat3_clone st a))
         v00 v01 v02 v10 v11 v12 v20 v21 v22)) a = mat3s st a
    \<and> vec3s (snd (line_clone SHAPE_LINE st l))
         (s (lines (snd (line_clone SHAPE_LINE st l)) (fst (line_clone SHAPE_LINE st l))))
        = vec3s st (s (lines st l))
    \<and> vec3s (snd (line_clone SHAPE_LINE st l))
         (e (lines (snd (line_clone SHAPE_LINE st l)) (fst (line_clone SHAPE_LINE st l))))
        = vec3s st (e (lines st l))
    \<and> lines (snd (line_set (snd (line_clone SHAPE_LINE st l)) (fst (line_clone SHAPE_LINE st l))
         sx sy sz ex ey ez)) l = lines st l
    \<and> vec3s (snd (line_set (snd (line_clone SHAPE_LINE st l)) (fst (line_clone SHAPE_LINE st l))
         sx sy sz ex ey ez)) (s (lines st l)) = vec3s st (s (lines st l))
    \<and> vec3s (snd (line_set (snd (line_clone SHAPE_LINE st l)) (fst (line_clone SHAPE_LINE st l))
         sx sy sz ex ey ez)) (e (lines st l)) = vec3s st (e (lines st l))"
proof -
  have matrix: "mat3s (snd (mat3_clone st a)) (fst (mat3_clone st a)) = mat3s st a
    \<and> mat3s (snd (mat3_set (snd (mat3_clone st a)) (fst (mat3_clone st a))
         v00 v01 v02 v10 v11 v12 v20 v21 v22)) a = mat3s st a"
    using assms(1)
    by (simp add: allocated_def mat3_clone_def mat3_new_def alloc_def default_arg_def
        mat3_set_def mat3_field_defs Let_def)
  have segment: "vec3s (snd (line_clone SHAPE_LINE st l))
         (s (lines (snd (line_clone SHAPE_LINE st l)) (fst (line_clone SHAPE_LINE st l))))
        = vec3s st (s (lines st l))
    \<and> vec3s (snd (line_clone SHAPE_LINE st l))
         (e (lines (snd (line_clone SHAPE_LINE st l)) (fst (line_clone SHAPE_LINE st l))))
        = vec3s st (e (lines st l))
    \<and> lines (snd (line_set (snd (line_clone SHAPE_LINE st l)) (fst (line_clone SHAPE_LINE st l))
         sx sy sz ex ey ez)) l = lines st l
    \<and> vec3s (snd (line_set (snd (line_clone SHAPE_LINE st l)) (fst (line_clone SHAPE_LINE st l))
         sx sy sz ex ey ez)) (s (lines st l)) = vec3s st (s (lines st l))
    \<and> vec3s (snd (line_set (snd (line_clone SHAPE_LINE st l)) (fst (line_clone SHAPE_LINE st l))
         sx sy sz ex ey ez)) (e (lines st l)) = vec3s st (e (lines st l))"
    using assms(2-4)
    by (simp add: allocated_def line_clone_def line_new_def vec3_create_def alloc_def
        default_arg_def line_set_def vec3_field_defs line_field_defs Let_def)
  from matrix segment show ?thesis
    by simp
qed

theorem clone_equal_and_independent_witness:
  "allocated example_store 0 \<and> allocated example_store 4
   \<and> allocated example_store (s (lines example_store 4))
   \<and> allocated example_store (e (lines example_store 4))
   \<and> mat3s (snd (mat3_clone example_store 0)) (fst (mat3_clone example_store 0))
       = mat3s example_store 0
   \<and> mat3s (snd (mat3_set (snd (mat3_clone example_store 0)) (fst (mat3_clone example_store 0))
        9 9 9 9 9 9 9 9 9)) 0 = mat3s example_store 0
   \<and> vec3s (snd (line_set (snd (line_clone 1 example_store 4)) (fst (line_clone 1 example_store 4))
        7 7 7 8 8 8)) (s (lines example_store 4)) = \<lparr>x = 1, y = 2, z = 3\<rparr>
   \<and> vec3s (snd (line_set (snd (line_clone 1 example_store 4)) (fst (line_clone 1 example_store 4))
        7 7 7 8 8 8)) (e (lines example_store 4)) = \<lparr>x = 4, y = 6, z = 3\<rparr>"
proof -
  have m: "allocated example_store 0" and l: "allocated example_store 4"
    and p: "allocated example_store (s (lines example_store 4))"
    and q: "allocated example_store (e (lines example_store 4))"
    by (simp_all add: allocated_def example_store_def)
  have before: "vec3s example_store (s (lines example_store 4)) = \<lparr>x = 1, y = 2, z = 3\<rparr>"
    "vec3s example_store (e (lines example_store 4)) = \<lparr>x = 4, y = 6, z = 3\<rparr>"
    by (simp_all add: example_store_def)
  from clone_equal_and_independent [OF m l p q, of 9 9 9 9 9 9 9 9 9 1 7 7 7 8 8 8]
    m l p q before
  show ?thesis
    by simp
qed

section \<open>Totality\<close>



end
